theory Spec2Isabelle
  imports Main "HOL-Library.Word"
begin

section \<open>ugpio.c: a user-space UIO driver for an AXI GPIO\<close>

text \<open>
  The program opens \<^verbatim>\<open>/dev/uio0\<close>, reads the size of the first memory region from sysfs,
  maps the region, configures the GPIO block and then loops forever in
  \<^verbatim>\<open>wait_for_interrupt\<close>. Everything outside the process (the UIO device node, the
  sysfs file, \<^verbatim>\<open>mmap\<close>, the peripheral behind the mapping) is a parameter of the model;
  what the process does to it is recorded, in program order, in a trace of events.
\<close>

subsection \<open>Machine types and constants\<close>

text \<open>
  The target is the ZedBoard (32-bit ARM): \<^verbatim>\<open>unsigned int\<close> and \<^verbatim>\<open>int\<close> are 32 bits
  wide and so are pointers. An \<^verbatim>\<open>int\<close> is kept as its 32 bits and read in two's
  complement (\<open>sint\<close>, \<open><s\<close>).
\<close>

type_synonym u32 = "32 word"
type_synonym s32 = "32 word"
type_synonym addr = "32 word"
type_synonym byte = "8 word"

definition sizeof_int :: nat where
  "sizeof_int = 4"

definition GPIO_MAP_SIZE :: u32 where "GPIO_MAP_SIZE = 0x10000"
definition GPIO_DATA_OFFSET :: u32 where "GPIO_DATA_OFFSET = 0x00"
definition GPIO_TRI_OFFSET :: u32 where "GPIO_TRI_OFFSET = 0x04"
definition GPIO_DATA2_OFFSET :: u32 where "GPIO_DATA2_OFFSET = 0x08"
definition GPIO_TRI2_OFFSET :: u32 where "GPIO_TRI2_OFFSET = 0x0C"
definition GPIO_GLOBAL_IRQ :: u32 where "GPIO_GLOBAL_IRQ = 0x11C"
definition GPIO_IRQ_CONTROL :: u32 where "GPIO_IRQ_CONTROL = 0x128"
definition GPIO_IRQ_STATUS :: u32 where "GPIO_IRQ_STATUS = 0x120"

text \<open>\<^verbatim>\<open>MAP_FAILED\<close> is \<^verbatim>\<open>(void *) -1\<close>.\<close>

definition MAP_FAILED :: addr where
  "MAP_FAILED = - 1"

subsection \<open>The outside world\<close>

text \<open>
  What one \<^verbatim>\<open>read(fd, buf, count)\<close> on the notification channel does: it fails
  (returns -1) or transfers some bytes, possibly fewer than asked for.
\<close>

datatype read_result = Read_Failed | Read_Bytes "byte list"

text \<open>
  The trace: output on stdout, every volatile access to the mapped region (absolute
  address and value), every read and write on the notification channel, and the
  \<^verbatim>\<open>mmap\<close> request (length, descriptor, pointer returned).
\<close>

datatype event =
    Output string
  | Reg_Read addr u32
  | Reg_Write addr u32
  | Chan_Read s32 nat read_result
  | Chan_Write s32 s32 nat
  | Mmap u32 s32 addr

text \<open>
  The peripheral behind the mapping, with a state of its own: a volatile load returns
  a value and may change the state (a register can change under the program), a
  volatile store changes it.
\<close>

record 'd device =
  dev_load :: "'d \<Rightarrow> addr \<Rightarrow> u32 \<times> 'd"
  dev_store :: "'d \<Rightarrow> addr \<Rightarrow> u32 \<Rightarrow> 'd"

record 'd world =
  hw :: 'd
  trace :: "event list"

text \<open>
  The environment of one run: what \<^verbatim>\<open>open\<close> returns for a path, the files \<^verbatim>\<open>fopen\<close>
  can read, the indeterminate value an uninitialised \<^verbatim>\<open>unsigned int\<close> local holds, what
  \<^verbatim>\<open>mmap\<close> returns for a length and a descriptor, the peripheral, and the results of the
  reads on the notification channel, one per interrupt delivered. When they are used
  up the process stays blocked in \<^verbatim>\<open>read\<close>.
\<close>

record 'd env =
  sys_open :: "string \<Rightarrow> s32"
  files :: "string \<rightharpoonup> string"
  uninitialised :: u32
  sys_mmap :: "u32 \<Rightarrow> s32 \<Rightarrow> addr"
  gpio :: "'d device"
  notifications :: "read_result list"

datatype outcome = Exited s32 | Blocked

subsection \<open>printf\<close>

function show_nat :: "nat \<Rightarrow> string" where
  "show_nat n =
     (if n < 10 then [''0123456789'' ! n]
      else show_nat (n div 10) @ [''0123456789'' ! (n mod 10)])"
  by pat_completeness auto
termination
  by (relation "measure (\<lambda>n. n)") auto

declare show_nat.simps [simp del]

text \<open>The conversion \<^verbatim>\<open>%d\<close>.\<close>

definition show_int :: "int \<Rightarrow> string" where
  "show_int i = (if i < 0 then ''-'' @ show_nat (nat (- i)) else show_nat (nat i))"

definition printf :: "string \<Rightarrow> 'd world \<Rightarrow> 'd world" where
  "printf s w = w\<lparr>trace := trace w @ [Output s]\<rparr>"

subsection \<open>Register access\<close>

definition gpio_write :: "'d device \<Rightarrow> addr \<Rightarrow> u32 \<Rightarrow> u32 \<Rightarrow> 'd world \<Rightarrow> 'd world" where
  "gpio_write dev gpio_base offset v w =
     w\<lparr>hw := dev_store dev (hw w) (gpio_base + offset) v,
       trace := trace w @ [Reg_Write (gpio_base + offset) v]\<rparr>"

definition gpio_read :: "'d device \<Rightarrow> addr \<Rightarrow> u32 \<Rightarrow> 'd world \<Rightarrow> u32 \<times> 'd world" where
  "gpio_read dev gpio_base offset w =
     (let (v, h) = dev_load dev (hw w) (gpio_base + offset)
      in (v, w\<lparr>hw := h, trace := trace w @ [Reg_Read (gpio_base + offset) v]\<rparr>))"

subsection \<open>The notification channel\<close>

text \<open>
  \<^verbatim>\<open>read(fd, buf, count)\<close>: the bytes transferred overwrite the front of the buffer, the
  rest of it keeps what it held. The value \<^verbatim>\<open>read\<close> returns is dropped by the caller.
\<close>

definition sys_read :: "s32 \<Rightarrow> byte list \<Rightarrow> nat \<Rightarrow> read_result \<Rightarrow> 'd world \<Rightarrow> byte list \<times> 'd world" where
  "sys_read fd buf count r w =
     ((case r of
         Read_Failed \<Rightarrow> buf
       | Read_Bytes bs \<Rightarrow> take count bs @ drop (length (take count bs)) buf),
      w\<lparr>trace := trace w @ [Chan_Read fd count r]\<rparr>)"

text \<open>\<^verbatim>\<open>write(fd, &v, count)\<close> for an \<^verbatim>\<open>int\<close> object \<open>v\<close>.\<close>

definition sys_write :: "s32 \<Rightarrow> s32 \<Rightarrow> nat \<Rightarrow> 'd world \<Rightarrow> 'd world" where
  "sys_write fd v count w = w\<lparr>trace := trace w @ [Chan_Write fd v count]\<rparr>"

subsection \<open>wait_for_interrupt\<close>

text \<open>
  \<open>r\<close> is what the blocking \<^verbatim>\<open>read\<close> delivers. The local \<^verbatim>\<open>pending\<close> is kept as its
  four bytes, all zero at first.
\<close>

definition wait_for_interrupt :: "'d device \<Rightarrow> s32 \<Rightarrow> addr \<Rightarrow> read_result \<Rightarrow> 'd world \<Rightarrow> 'd world" where
  "wait_for_interrupt dev fd gpio_ptr r w =
     (let pending = replicate sizeof_int (0 :: byte);
          reenable = (1 :: s32);
          (pending, w) = sys_read fd pending sizeof_int r w;
          (reg, w) = gpio_read dev gpio_ptr GPIO_IRQ_STATUS w;
          w = (if reg \<noteq> 0 then gpio_write dev gpio_ptr GPIO_IRQ_STATUS 2 w else w);
          (reg, w) = gpio_read dev gpio_ptr GPIO_DATA2_OFFSET w;
          w = printf (''GPIO_DATA2_OFFSET: 0x'' @ show_int (sint reg) @ ''\<newline>'') w
      in sys_write fd reenable sizeof_int w)"

text \<open>
  \<^verbatim>\<open>while (1) wait_for_interrupt(fd, gpio_ptr);\<close> against the reads the channel will
  deliver: the result is the world in which the process is blocked in the next
  \<^verbatim>\<open>read\<close>.
\<close>

fun interrupt_loop :: "'d device \<Rightarrow> s32 \<Rightarrow> addr \<Rightarrow> read_result list \<Rightarrow> 'd world \<Rightarrow> 'd world" where
  "interrupt_loop dev fd gpio_ptr [] w = w"
| "interrupt_loop dev fd gpio_ptr (r # rs) w =
     interrupt_loop dev fd gpio_ptr rs (wait_for_interrupt dev fd gpio_ptr r w)"

subsection \<open>get_memory_size\<close>

text \<open>
  \<^verbatim>\<open>fscanf(size_fp, "0x%08X", &size)\<close>, after ISO C (7.21.6.2). The two ordinary
  characters of the format must be the next two characters of the file. The conversion
  \<^verbatim>\<open>%08X\<close> has field width 8 (\<^verbatim>\<open>fscanf\<close> has no zero flag: the digits \<^verbatim>\<open>08\<close> are the
  width): it skips white space and takes the longest run of at
  most 8 characters that is, or begins, a hexadecimal integer as \<^verbatim>\<open>strtoul\<close> with base
  16 takes it (a sign, a prefix \<^verbatim>\<open>0x\<close> or \<^verbatim>\<open>0X\<close>, hexadecimal digits of either case).
  \<open>None\<close> is a call that assigns nothing (an input or a matching failure).
\<close>

definition isspace :: "char \<Rightarrow> bool" where
  "isspace c = (c = CHR '' '' \<or> c = CHR 0x09 \<or> c = CHR 0x0A \<or> c = CHR 0x0B \<or> c = CHR 0x0C \<or> c = CHR 0x0D)"

definition xdigit_value :: "char \<Rightarrow> nat option" where
  "xdigit_value c =
     (let n = (of_char c :: nat)
      in if 48 \<le> n \<and> n \<le> 57 then Some (n - 48)
         else if 97 \<le> n \<and> n \<le> 102 then Some (n - 87)
         else if 65 \<le> n \<and> n \<le> 70 then Some (n - 55)
         else None)"

definition isxdigit :: "char \<Rightarrow> bool" where
  "isxdigit c = (xdigit_value c \<noteq> None)"

text \<open>The digit loop of \<^verbatim>\<open>strtoul\<close>, base 16.\<close>

definition strtoul16 :: "string \<Rightarrow> nat" where
  "strtoul16 ds = foldl (\<lambda>acc c. acc * 16 + (case xdigit_value c of None \<Rightarrow> 0 | Some d \<Rightarrow> d)) 0 ds"

fun scan_literal :: "char \<Rightarrow> string \<Rightarrow> string option" where
  "scan_literal c [] = None"
| "scan_literal c (d # ds) = (if d = c then Some ds else None)"

text \<open>The sign, if the field has room for it: whether it is a minus, what is left of
  the field width, the rest of the input.\<close>

fun scan_sign :: "nat \<Rightarrow> string \<Rightarrow> bool \<times> nat \<times> string" where
  "scan_sign width (c # cs) =
     (if 0 < width \<and> (c = CHR ''+'' \<or> c = CHR ''-'') then (c = CHR ''-'', width - 1, cs)
      else (False, width, c # cs))"
| "scan_sign width [] = (False, width, [])"

fun scan_prefix :: "nat \<Rightarrow> string \<Rightarrow> nat \<times> string" where
  "scan_prefix width (c # d # cs) =
     (if 2 \<le> width \<and> c = CHR ''0'' \<and> (d = CHR ''x'' \<or> d = CHR ''X'') then (width - 2, cs)
      else (width, c # d # cs))"
| "scan_prefix width cs = (width, cs)"

definition scan_hex :: "nat \<Rightarrow> string \<Rightarrow> u32 option" where
  "scan_hex width cs =
     (let (minus, width1, cs1) = scan_sign width (dropWhile isspace cs);
          (width2, cs2) = scan_prefix width1 cs1;
          ds = takeWhile isxdigit (take width2 cs2)
      in if ds = [] then None
         else Some (if minus then - word_of_nat (strtoul16 ds) else word_of_nat (strtoul16 ds)))"

definition fscanf_size :: "string \<Rightarrow> u32 option" where
  "fscanf_size content =
     (case scan_literal (CHR ''0'') content of
        None \<Rightarrow> None
      | Some cs \<Rightarrow>
          (case scan_literal (CHR ''x'') cs of
             None \<Rightarrow> None
           | Some cs' \<Rightarrow> scan_hex 8 cs'))"

text \<open>
  \<open>Inl status\<close> is \<^verbatim>\<open>exit(status)\<close>. The result of \<^verbatim>\<open>fscanf\<close> is not looked at: when it
  assigns nothing, \<^verbatim>\<open>size\<close> still holds the indeterminate value \<open>size0\<close> it started with.
\<close>

definition get_memory_size :: "(string \<rightharpoonup> string) \<Rightarrow> u32 \<Rightarrow> string \<Rightarrow> 'd world \<Rightarrow> (s32 + u32) \<times> 'd world" where
  "get_memory_size fs size0 sysfs_path_file w =
     (case fs sysfs_path_file of
        None \<Rightarrow> (Inl (- 1), printf ''unable to open the uio size file\<newline>'' w)
      | Some content \<Rightarrow>
          (Inr (case fscanf_size content of None \<Rightarrow> size0 | Some v \<Rightarrow> v), w))"

subsection \<open>main\<close>

text \<open>
  \<^verbatim>\<open>gpio_size\<close> is an \<^verbatim>\<open>int\<close> that takes the \<^verbatim>\<open>unsigned int\<close> result of
  \<^verbatim>\<open>get_memory_size\<close> and is passed to \<^verbatim>\<open>mmap\<close> as a \<^verbatim>\<open>size_t\<close>: with all three types
  32 bits wide both conversions keep the bits. \<open>h0\<close> is the state of the peripheral
  when the process starts.
\<close>

definition main :: "'d env \<Rightarrow> 'd \<Rightarrow> outcome \<times> 'd world" where
  "main e h0 =
     (let w = printf ''GPIO UIO test.\<newline>'' \<lparr>hw = h0, trace = []\<rparr>;
          uiod = ''/dev/uio0'';
          fd = sys_open e uiod
      in if fd <s 1 then
           (Exited (- 1), printf (''Invalid UIO device file:'' @ uiod @ ''.\<newline>'') w)
         else
           (case get_memory_size (files e) (uninitialised e) ''/sys/class/uio/uio0/maps/map0/size'' w of
              (Inl status, w) \<Rightarrow> (Exited status, w)
            | (Inr ret, w) \<Rightarrow>
                (let gpio_size = (ucast ret :: s32);
                     gpio_ptr = sys_mmap e (ucast gpio_size) fd;
                     w = w\<lparr>trace := trace w @ [Mmap (ucast gpio_size) fd gpio_ptr]\<rparr>
                 in if gpio_ptr = MAP_FAILED then
                      (Exited (- 1), printf ''Mmap call failure.\<newline>'' w)
                    else
                      (let w = gpio_write (gpio e) gpio_ptr GPIO_TRI_OFFSET 0 w;
                           w = gpio_write (gpio e) gpio_ptr GPIO_TRI2_OFFSET 0xF w;
                           w = gpio_write (gpio e) gpio_ptr GPIO_GLOBAL_IRQ 0x80000000 w;
                           w = gpio_write (gpio e) gpio_ptr GPIO_IRQ_CONTROL 2 w
                       in (Blocked, interrupt_loop (gpio e) fd gpio_ptr (notifications e) w)))))"

subsection \<open>A simulated register backend\<close>

text \<open>
  Plain memory, as a list of stores, the latest first: a load returns the last value
  stored at the address, 0 when there is none, and changes nothing.
\<close>

definition sim :: "(addr \<times> u32) list device" where
  "sim = \<lparr>dev_load = (\<lambda>h a. (case map_of h a of None \<Rightarrow> 0 | Some v \<Rightarrow> v, h)),
          dev_store = (\<lambda>h a v. (a, v) # h)\<rparr>"

subsection \<open>Reading the trace\<close>

text \<open>The events a step adds to the trace.\<close>

definition new_events :: "'d world \<Rightarrow> 'd world \<Rightarrow> event list" where
  "new_events w w' = drop (length (trace w)) (trace w')"

definition is_chan_write :: "event \<Rightarrow> bool" where
  "is_chan_write e = (case e of Chan_Write fd v n \<Rightarrow> True | _ \<Rightarrow> False)"

definition is_write_to :: "addr \<Rightarrow> event \<Rightarrow> bool" where
  "is_write_to a e = (case e of Reg_Write b v \<Rightarrow> b = a | _ \<Rightarrow> False)"

definition is_read_of :: "addr \<Rightarrow> event \<Rightarrow> bool" where
  "is_read_of a e = (case e of Reg_Read b v \<Rightarrow> b = a | _ \<Rightarrow> False)"

text \<open>
  What the peripheral answers during one Handling phase that starts in world \<open>w\<close>:
  the value the load of IRQ_STATUS returns, the state of the peripheral once the
  acknowledge step is over, and the value the load of DATA2 returns then.
\<close>

definition irq_status_seen :: "'d device \<Rightarrow> addr \<Rightarrow> 'd world \<Rightarrow> u32" where
  "irq_status_seen dev gpio_ptr w = fst (dev_load dev (hw w) (gpio_ptr + GPIO_IRQ_STATUS))"

definition after_acknowledge :: "'d device \<Rightarrow> addr \<Rightarrow> 'd world \<Rightarrow> 'd" where
  "after_acknowledge dev gpio_ptr w =
     (let (status, h) = dev_load dev (hw w) (gpio_ptr + GPIO_IRQ_STATUS)
      in if status = 0 then h else dev_store dev h (gpio_ptr + GPIO_IRQ_STATUS) 2)"

definition data2_seen :: "'d device \<Rightarrow> addr \<Rightarrow> 'd world \<Rightarrow> u32" where
  "data2_seen dev gpio_ptr w =
     fst (dev_load dev (after_acknowledge dev gpio_ptr w) (gpio_ptr + GPIO_DATA2_OFFSET))"

text \<open>
  The Handling phase as the specification lists it (4.3, steps 1 to 3), for the two
  values the peripheral answers: read IRQ_STATUS (offset 0x120) and write 2 to it if
  the value is not zero; read DATA2 (offset 0x08) and report it; write the reenable
  value 1, four bytes, to the notification channel.
\<close>

definition handling_events :: "s32 \<Rightarrow> addr \<Rightarrow> u32 \<Rightarrow> u32 \<Rightarrow> event list" where
  "handling_events fd gpio_ptr status data2 =
     [Reg_Read (gpio_ptr + 0x120) status]
     @ (if status = 0 then [] else [Reg_Write (gpio_ptr + 0x120) 2])
     @ [Reg_Read (gpio_ptr + 0x08) data2,
        Output (''GPIO_DATA2_OFFSET: 0x'' @ show_int (sint data2) @ ''\<newline>''),
        Chan_Write fd 1 4]"

subsection \<open>Worlds and environments to run the program in\<close>

text \<open>
  The simulated backend with an interrupt pending on channel 2 (IRQ_STATUS holds 2) and
  with none (IRQ_STATUS holds 0), mapped at 0x40000000; DATA2 holds 7.
\<close>

definition sim_pending :: "(addr \<times> u32) list world" where
  "sim_pending = \<lparr>hw = [(0x40000120, 2), (0x40000008, 7)], trace = []\<rparr>"

definition sim_idle :: "(addr \<times> u32) list world" where
  "sim_idle = \<lparr>hw = [(0x40000120, 0), (0x40000008, 7)], trace = []\<rparr>"

text \<open>
  A board: \<^verbatim>\<open>open\<close> returns \<open>fd\<close> for the UIO device node, the size file of region 0
  has the content \<open>size_file\<close> (\<open>None\<close>: it cannot be opened), \<^verbatim>\<open>mmap\<close> answers
  \<open>mapped\<close> whatever length is asked for (a pointer, or \<^verbatim>\<open>MAP_FAILED\<close>), the peripheral
  is the simulated backend, and the notification channel delivers \<open>rs\<close>.
\<close>

definition env_board ::
  "s32 \<Rightarrow> string option \<Rightarrow> addr \<Rightarrow> read_result list \<Rightarrow> (addr \<times> u32) list env" where
  "env_board fd size_file mapped rs =
     \<lparr>sys_open = (\<lambda>path. if path = ''/dev/uio0'' then fd else - 1),
      files = (\<lambda>path. if path = ''/sys/class/uio/uio0/maps/map0/size'' then size_file else None),
      uninitialised = 0xDEADBEEF,
      sys_mmap = (\<lambda>len fd. mapped),
      gpio = sim,
      notifications = rs\<rparr>"

subsection \<open>Notions of the specification\<close>

text \<open>
  The integer a string of hexadecimal digits denotes, in positional notation: the digit
  at position \<open>i\<close> of \<open>n\<close> counts \<open>16 ^ (n - 1 - i)\<close>.
\<close>

definition xdigit_denotes :: "char \<Rightarrow> nat" where
  "xdigit_denotes c = (case xdigit_value c of None \<Rightarrow> 0 | Some d \<Rightarrow> d)"

definition hex_denotation :: "string \<Rightarrow> nat" where
  "hex_denotation ds = (\<Sum>i < length ds. xdigit_denotes (ds ! i) * 16 ^ (length ds - 1 - i))"

text \<open>Reading a decimal numeral back, to tell what a printed line says.\<close>

definition read_nat :: "string \<Rightarrow> nat" where
  "read_nat s = foldl (\<lambda>acc c. acc * 10 + (of_char c - 48)) 0 s"

text \<open>The size \<^verbatim>\<open>get_memory_size\<close> returns for a size file it can open, by its content.\<close>

definition requested_length :: "'d env \<Rightarrow> string \<Rightarrow> u32" where
  "requested_length e content =
     (case fscanf_size content of None \<Rightarrow> uninitialised e | Some v \<Rightarrow> v)"

text \<open>The invariant of a mapped region: its length is a positive multiple of the page size.\<close>

definition page_multiple :: "nat \<Rightarrow> u32 \<Rightarrow> bool" where
  "page_multiple page_size len = (0 < unat len \<and> unat len mod page_size = 0)"

section \<open>Properties\<close>

subsection \<open>One call of wait_for_interrupt\<close>

lemma wait_for_interrupt_trace:
  "trace (wait_for_interrupt dev fd gpio_ptr r w) =
     trace w @ Chan_Read fd 4 r
       # handling_events fd gpio_ptr (irq_status_seen dev gpio_ptr w) (data2_seen dev gpio_ptr w)"
  by (simp add: wait_for_interrupt_def sys_read_def gpio_read_def gpio_write_def printf_def
      sys_write_def handling_events_def irq_status_seen_def data2_seen_def after_acknowledge_def
      sizeof_int_def GPIO_IRQ_STATUS_def GPIO_DATA2_OFFSET_def Let_def case_prod_beta)

lemma wait_for_interrupt_hw:
  "hw (wait_for_interrupt dev fd gpio_ptr r w) =
     snd (dev_load dev (after_acknowledge dev gpio_ptr w) (gpio_ptr + GPIO_DATA2_OFFSET))"
  by (simp add: wait_for_interrupt_def sys_read_def gpio_read_def gpio_write_def printf_def
      sys_write_def after_acknowledge_def Let_def case_prod_beta)

lemma wait_for_interrupt_new_events:
  "new_events w (wait_for_interrupt dev fd gpio_ptr r w) =
     Chan_Read fd 4 r
       # handling_events fd gpio_ptr (irq_status_seen dev gpio_ptr w) (data2_seen dev gpio_ptr w)"
  by (simp add: new_events_def wait_for_interrupt_trace)

lemma not_chan_write_Chan_Read: "\<not> is_chan_write (Chan_Read fd n r)"
  by (simp add: is_chan_write_def)

lemma filter_handling_chan_write:
  "filter is_chan_write (handling_events fd gpio_ptr status data2) = [Chan_Write fd 1 sizeof_int]"
  by (simp add: handling_events_def is_chan_write_def sizeof_int_def)

text \<open>Running the simulated backend: the facts that evaluate one Handling phase on it.\<close>

lemmas sim_run =
  wait_for_interrupt_new_events handling_events_def irq_status_seen_def data2_seen_def
  after_acknowledge_def sim_def sim_pending_def sim_idle_def GPIO_IRQ_STATUS_def
  GPIO_DATA2_OFFSET_def sizeof_int_def show_int_def show_nat.simps

text \<open>
  Claim C1. In a Handling phase the write of 2 to IRQ_STATUS comes strictly before the
  write of the reenable value to the notification channel: whenever a write to
  IRQ_STATUS and a write to the channel are both among the events of one call of
  \<^verbatim>\<open>wait_for_interrupt\<close>, the first has the smaller position; and when IRQ_STATUS reads
  non-zero, both are there, the acknowledge write of 2 before the reenable write.
\<close>

theorem acknowledge_before_reenable:
  "(let evs = new_events w (wait_for_interrupt dev fd gpio_ptr r w)
    in (\<forall>i j. i < length evs \<and> j < length evs
              \<and> is_write_to (gpio_ptr + GPIO_IRQ_STATUS) (evs ! i) \<and> is_chan_write (evs ! j)
            \<longrightarrow> i < j)
       \<and> (irq_status_seen dev gpio_ptr w \<noteq> 0 \<longrightarrow>
            (\<exists>i j. i < j \<and> j < length evs
               \<and> evs ! i = Reg_Write (gpio_ptr + GPIO_IRQ_STATUS) 2
               \<and> evs ! j = Chan_Write fd 1 sizeof_int)))"
proof -
  let ?s = "irq_status_seen dev gpio_ptr w"
  let ?evs = "new_events w (wait_for_interrupt dev fd gpio_ptr r w)"
  have order: "i < j"
    if "i < length ?evs" "j < length ?evs"
       "is_write_to (gpio_ptr + GPIO_IRQ_STATUS) (?evs ! i)" "is_chan_write (?evs ! j)" for i j
  proof (cases "?s = 0")
    case True
    with that show ?thesis
      by (auto simp: wait_for_interrupt_new_events handling_events_def is_write_to_def
          is_chan_write_def nth_Cons' split: if_splits)
  next
    case False
    with that show ?thesis
      by (auto simp: wait_for_interrupt_new_events handling_events_def is_write_to_def
          is_chan_write_def nth_Cons' split: if_splits)
  qed
  have ex: "\<exists>i j. i < j \<and> j < length ?evs
               \<and> ?evs ! i = Reg_Write (gpio_ptr + GPIO_IRQ_STATUS) 2
               \<and> ?evs ! j = Chan_Write fd 1 sizeof_int" if "?s \<noteq> 0"
  proof -
    have "(2::nat) < 5 \<and> 5 < length ?evs \<and> ?evs ! 2 = Reg_Write (gpio_ptr + GPIO_IRQ_STATUS) 2
               \<and> ?evs ! 5 = Chan_Write fd 1 sizeof_int"
      using that by (simp add: wait_for_interrupt_new_events handling_events_def
        GPIO_IRQ_STATUS_def sizeof_int_def)
    then show ?thesis by blast
  qed
  show ?thesis unfolding Let_def using order ex by blast
qed

theorem acknowledge_before_reenable_witness:
  "(let evs = new_events sim_pending
                (wait_for_interrupt sim 3 0x40000000 (Read_Bytes [1, 0, 0, 0]) sim_pending)
    in irq_status_seen sim 0x40000000 sim_pending \<noteq> 0
       \<and> is_write_to (0x40000000 + GPIO_IRQ_STATUS) (evs ! 2) \<and> is_chan_write (evs ! 5)
       \<and> (2 :: nat) < 5
       \<and> (\<exists>i j. i < j \<and> j < length evs
               \<and> evs ! i = Reg_Write (0x40000000 + GPIO_IRQ_STATUS) 2
               \<and> evs ! j = Chan_Write 3 1 sizeof_int))"
proof -
  let ?evs = "new_events sim_pending
                (wait_for_interrupt sim 3 0x40000000 (Read_Bytes [1, 0, 0, 0]) sim_pending)"
  have s: "irq_status_seen sim 0x40000000 sim_pending \<noteq> 0"
    by (simp add: sim_run)
  have e: "?evs = [Chan_Read 3 4 (Read_Bytes [1, 0, 0, 0]), Reg_Read 0x40000120 2,
      Reg_Write 0x40000120 2, Reg_Read 0x40000008 7,
      Output ''GPIO_DATA2_OFFSET: 0x7\<newline>'', Chan_Write 3 1 4]"
    by (simp add: sim_run)
  have a: "is_write_to (0x40000000 + GPIO_IRQ_STATUS) (?evs ! 2)" "is_chan_write (?evs ! 5)"
    by (simp_all add: e is_write_to_def is_chan_write_def GPIO_IRQ_STATUS_def)
  from acknowledge_before_reenable [of sim_pending sim 3 "0x40000000" "Read_Bytes [1, 0, 0, 0]"] s a
  show ?thesis
    unfolding Let_def by simp
qed

text \<open>
  Claim C4. In a Handling phase \<^verbatim>\<open>wait_for_interrupt\<close> loads IRQ_STATUS once; if the
  value is zero it writes nothing to IRQ_STATUS, and if it is not zero it writes to
  IRQ_STATUS once, the constant 2.
\<close>

theorem acknowledge_only_when_pending:
  "(let evs = new_events w (wait_for_interrupt dev fd gpio_ptr r w);
        status = irq_status_seen dev gpio_ptr w
    in filter (is_read_of (gpio_ptr + GPIO_IRQ_STATUS)) evs
         = [Reg_Read (gpio_ptr + GPIO_IRQ_STATUS) status]
       \<and> filter (is_write_to (gpio_ptr + GPIO_IRQ_STATUS)) evs
         = (if status = 0 then [] else [Reg_Write (gpio_ptr + GPIO_IRQ_STATUS) 2]))"
  by (simp add: wait_for_interrupt_new_events handling_events_def is_write_to_def is_read_of_def
      GPIO_IRQ_STATUS_def Let_def)

theorem acknowledge_only_when_pending_witness:
  "filter (is_write_to 0x40000120)
     (new_events sim_idle (wait_for_interrupt sim 3 0x40000000 (Read_Bytes [1, 0, 0, 0]) sim_idle))
     = []
   \<and> filter (is_write_to 0x40000120)
     (new_events sim_pending
        (wait_for_interrupt sim 3 0x40000000 (Read_Bytes [1, 0, 0, 0]) sim_pending))
     = [Reg_Write 0x40000120 2]"
  using acknowledge_only_when_pending [of sim_idle sim 3 "0x40000000" "Read_Bytes [1, 0, 0, 0]"]
    acknowledge_only_when_pending [of sim_pending sim 3 "0x40000000" "Read_Bytes [1, 0, 0, 0]"]
  by (simp add: Let_def irq_status_seen_def sim_def sim_idle_def sim_pending_def
      GPIO_IRQ_STATUS_def)

text \<open>The line printed for DATA2 determines the value: \<^verbatim>\<open>%d\<close> is one-to-one.\<close>

lemma digit_char: "n < 10 \<Longrightarrow> of_char (''0123456789'' ! n) = 48 + n"
proof -
  assume "n < 10"
  then have "n \<in> set [0, 1, 2, 3, 4, 5, 6, 7, 8, 9]"
    by simp arith
  then show ?thesis
    by auto
qed

lemma read_nat_show_nat: "read_nat (show_nat n) = n"
proof (induction n rule: show_nat.induct)
  case (1 n)
  show ?case
  proof (cases "n < 10")
    case True
    then show ?thesis
      by (simp add: show_nat.simps [of n] read_nat_def digit_char)
  next
    case False
    with 1 have "read_nat (show_nat (n div 10)) = n div 10" by simp
    with False show ?thesis
      by (simp add: show_nat.simps [of n] read_nat_def digit_char)
  qed
qed

lemma show_nat_not_minus: "show_nat n \<noteq> [] \<and> hd (show_nat n) \<noteq> CHR ''-''"
proof (induction n rule: show_nat.induct)
  case (1 n)
  show ?case
  proof (cases "n < 10")
    case True
    then have "of_char (hd (show_nat n)) = 48 + n"
      by (simp add: show_nat.simps [of n] digit_char)
    then have "hd (show_nat n) \<noteq> CHR ''-''" by auto
    with True show ?thesis by (simp add: show_nat.simps [of n])
  next
    case False
    with 1 show ?thesis
      by (simp add: show_nat.simps [of n])
  qed
qed

lemma show_int_inj: "show_int i = show_int j \<Longrightarrow> i = j"
proof -
  assume eq: "show_int i = show_int j"
  have neg: False if "a < 0" "\<not> b < 0" "show_int a = show_int b" for a b
  proof -
    from that have "CHR ''-'' # show_nat (nat (- a)) = show_nat (nat b)"
      by (simp add: show_int_def)
    then have "hd (show_nat (nat b)) = CHR ''-''"
      by (metis list.sel(1))
    with show_nat_not_minus [of "nat b"] show False by simp
  qed
  show ?thesis
  proof (cases "i < 0"; cases "j < 0")
    assume "i < 0" "j < 0"
    with eq have "read_nat (show_nat (nat (- i))) = read_nat (show_nat (nat (- j)))"
      by (simp add: show_int_def)
    with \<open>i < 0\<close> \<open>j < 0\<close> show ?thesis by (simp add: read_nat_show_nat)
  next
    assume "\<not> i < 0" "\<not> j < 0"
    with eq have "read_nat (show_nat (nat i)) = read_nat (show_nat (nat j))"
      by (simp add: show_int_def)
    with \<open>\<not> i < 0\<close> \<open>\<not> j < 0\<close> show ?thesis by (simp add: read_nat_show_nat)
  next
    assume "i < 0" "\<not> j < 0"
    with neg [of i j] eq show ?thesis by simp
  next
    assume "\<not> i < 0" "j < 0"
    with neg [of j i] eq show ?thesis by simp
  qed
qed

lemma data2_report_determines_value:
  "''GPIO_DATA2_OFFSET: 0x'' @ show_int (sint (v :: u32)) @ ''\<newline>''
     = ''GPIO_DATA2_OFFSET: 0x'' @ show_int (sint (v' :: u32)) @ ''\<newline>'' \<Longrightarrow> v = v'"
proof -
  assume "''GPIO_DATA2_OFFSET: 0x'' @ show_int (sint v) @ ''\<newline>''
     = ''GPIO_DATA2_OFFSET: 0x'' @ show_int (sint v') @ ''\<newline>''"
  then have "show_int (sint v) = show_int (sint v')" by simp
  then have "sint v = sint v'" by (rule show_int_inj)
  then show "v = v'" by (rule signed_word_eqI)
qed

text \<open>
  Claim C5. In a Handling phase, after the acknowledge step (the load of IRQ_STATUS and
  the write of 2 if there is one), \<^verbatim>\<open>wait_for_interrupt\<close> loads DATA2 (offset 0x08),
  prints the value loaded (\<^verbatim>\<open>"GPIO_DATA2_OFFSET: 0x%d\n"\<close>: in decimal, a line no other
  value gives) and then writes the reenable value 1, four bytes, to the notification
  channel; DATA2 is loaded once.
\<close>

theorem data2_reported_then_reenable:
  "(let evs = new_events w (wait_for_interrupt dev fd gpio_ptr r w);
        status = irq_status_seen dev gpio_ptr w;
        data2 = data2_seen dev gpio_ptr w
    in evs = (Chan_Read fd sizeof_int r # Reg_Read (gpio_ptr + GPIO_IRQ_STATUS) status
               # (if status = 0 then [] else [Reg_Write (gpio_ptr + GPIO_IRQ_STATUS) 2]))
             @ [Reg_Read (gpio_ptr + GPIO_DATA2_OFFSET) data2,
                Output (''GPIO_DATA2_OFFSET: 0x'' @ show_int (sint data2) @ ''\<newline>''),
                Chan_Write fd 1 sizeof_int]
       \<and> filter (is_read_of (gpio_ptr + GPIO_DATA2_OFFSET)) evs
           = [Reg_Read (gpio_ptr + GPIO_DATA2_OFFSET) data2]
       \<and> (\<forall>v. ''GPIO_DATA2_OFFSET: 0x'' @ show_int (sint (v :: u32)) @ ''\<newline>''
                = ''GPIO_DATA2_OFFSET: 0x'' @ show_int (sint data2) @ ''\<newline>''
              \<longrightarrow> v = data2))"
proof -
  let ?evs = "new_events w (wait_for_interrupt dev fd gpio_ptr r w)"
  let ?status = "irq_status_seen dev gpio_ptr w"
  let ?data2 = "data2_seen dev gpio_ptr w"
  have events: "?evs = (Chan_Read fd sizeof_int r # Reg_Read (gpio_ptr + GPIO_IRQ_STATUS) ?status
               # (if ?status = 0 then [] else [Reg_Write (gpio_ptr + GPIO_IRQ_STATUS) 2]))
             @ [Reg_Read (gpio_ptr + GPIO_DATA2_OFFSET) ?data2,
                Output (''GPIO_DATA2_OFFSET: 0x'' @ show_int (sint ?data2) @ ''\<newline>''),
                Chan_Write fd 1 sizeof_int]"
    by (simp add: wait_for_interrupt_new_events handling_events_def
        GPIO_IRQ_STATUS_def GPIO_DATA2_OFFSET_def sizeof_int_def)
  have once: "filter (is_read_of (gpio_ptr + GPIO_DATA2_OFFSET)) ?evs
           = [Reg_Read (gpio_ptr + GPIO_DATA2_OFFSET) ?data2]"
    by (simp add: wait_for_interrupt_new_events handling_events_def is_read_of_def
        GPIO_DATA2_OFFSET_def)
  have told: "v = ?data2"
    if "''GPIO_DATA2_OFFSET: 0x'' @ show_int (sint (v :: u32)) @ ''\<newline>''
          = ''GPIO_DATA2_OFFSET: 0x'' @ show_int (sint ?data2) @ ''\<newline>''" for v
    using that by (rule data2_report_determines_value)
  from events once told show ?thesis
    unfolding Let_def by blast
qed

theorem data2_reported_then_reenable_witness:
  "new_events sim_pending
     (wait_for_interrupt sim 3 0x40000000 (Read_Bytes [1, 0, 0, 0]) sim_pending)
   = [Chan_Read 3 4 (Read_Bytes [1, 0, 0, 0]), Reg_Read 0x40000120 2, Reg_Write 0x40000120 2,
      Reg_Read 0x40000008 7, Output ''GPIO_DATA2_OFFSET: 0x7\<newline>'', Chan_Write 3 1 4]"
  using data2_reported_then_reenable [of sim_pending sim 3 "0x40000000" "Read_Bytes [1, 0, 0, 0]"]
  by (simp add: Let_def irq_status_seen_def data2_seen_def after_acknowledge_def sim_def
      sim_pending_def GPIO_IRQ_STATUS_def GPIO_DATA2_OFFSET_def sizeof_int_def show_int_def
      show_nat.simps)

text \<open>
  Claim C10. What \<^verbatim>\<open>wait_for_interrupt\<close> does after the blocking read does not depend on
  what the read delivered: for any two results of the read (any two counts, and
  short or failed reads as well) the events after the read and the state the
  peripheral is left in are the same. The bytes read go to the local \<^verbatim>\<open>pending\<close>,
  which nothing reads.
\<close>

theorem pending_count_unused:
  "\<exists>evs. new_events w (wait_for_interrupt dev fd gpio_ptr r1 w) = Chan_Read fd sizeof_int r1 # evs
       \<and> new_events w (wait_for_interrupt dev fd gpio_ptr r2 w) = Chan_Read fd sizeof_int r2 # evs
       \<and> hw (wait_for_interrupt dev fd gpio_ptr r1 w) = hw (wait_for_interrupt dev fd gpio_ptr r2 w)"
  by (simp add: wait_for_interrupt_new_events wait_for_interrupt_hw sizeof_int_def)

theorem pending_count_unused_witness:
  "\<exists>evs. new_events sim_pending
            (wait_for_interrupt sim 3 0x40000000 (Read_Bytes [1, 0, 0, 0]) sim_pending)
          = Chan_Read 3 4 (Read_Bytes [1, 0, 0, 0]) # evs
       \<and> new_events sim_pending
            (wait_for_interrupt sim 3 0x40000000 (Read_Bytes [0xFF, 0xFF, 0xFF, 0x7F]) sim_pending)
          = Chan_Read 3 4 (Read_Bytes [0xFF, 0xFF, 0xFF, 0x7F]) # evs
       \<and> hw (wait_for_interrupt sim 3 0x40000000 (Read_Bytes [1, 0, 0, 0]) sim_pending)
          = hw (wait_for_interrupt sim 3 0x40000000 (Read_Bytes [0xFF, 0xFF, 0xFF, 0x7F]) sim_pending)"
  using pending_count_unused [of sim_pending sim 3 "0x40000000" "Read_Bytes [1, 0, 0, 0]"
      "Read_Bytes [0xFF, 0xFF, 0xFF, 0x7F]"]
  by (simp add: sizeof_int_def)

subsection \<open>The interrupt loop\<close>

lemma interrupt_loop_chan_writes:
  "filter is_chan_write (trace (interrupt_loop dev fd gpio_ptr rs w)) =
     filter is_chan_write (trace w) @ replicate (length rs) (Chan_Write fd 1 sizeof_int)"
proof (induction rs arbitrary: w)
  case Nil
  show ?case by simp
next
  case (Cons r rs)
  show ?case
    by (simp add: Cons.IH wait_for_interrupt_trace filter_handling_chan_write
        not_chan_write_Chan_Read replicate_app_Cons_same)
qed

lemma interrupt_loop_extends:
  "take (length (trace w)) (trace (interrupt_loop dev fd gpio_ptr rs w)) = trace w"
proof (induction rs arbitrary: w)
  case Nil
  show ?case by simp
next
  case (Cons r rs)
  let ?w1 = "wait_for_interrupt dev fd gpio_ptr r w"
  let ?t = "trace (interrupt_loop dev fd gpio_ptr rs ?w1)"
  have "take (length (trace w)) ?t = take (length (trace w)) (take (length (trace ?w1)) ?t)"
    by (simp add: wait_for_interrupt_trace min_def)
  also have "\<dots> = take (length (trace w)) (trace ?w1)"
    by (simp only: Cons.IH)
  also have "\<dots> = trace w"
    by (simp add: wait_for_interrupt_trace)
  finally show ?case by simp
qed

text \<open>
  Claim C9. Every call of \<^verbatim>\<open>wait_for_interrupt\<close> writes to the notification channel
  exactly once, the reenable value 1 with \<^verbatim>\<open>sizeof(int)\<close> bytes, whatever IRQ_STATUS reads
  (the witness runs it with IRQ_STATUS reading zero, where nothing is written to
  IRQ_STATUS); so the loop, over the reads \<open>rs\<close> the channel delivers, writes it once
  per iteration.
\<close>

theorem reenable_once_per_iteration:
  "filter is_chan_write (new_events w (wait_for_interrupt dev fd gpio_ptr r w))
     = [Chan_Write fd 1 sizeof_int]
   \<and> filter is_chan_write (new_events w (interrupt_loop dev fd gpio_ptr rs w))
     = replicate (length rs) (Chan_Write fd 1 sizeof_int)"
proof -
  let ?t = "trace (interrupt_loop dev fd gpio_ptr rs w)"
  have "filter is_chan_write ?t
      = filter is_chan_write (take (length (trace w)) ?t)
        @ filter is_chan_write (drop (length (trace w)) ?t)"
    by (simp only: filter_append [symmetric] append_take_drop_id)
  then have "filter is_chan_write (drop (length (trace w)) ?t)
      = replicate (length rs) (Chan_Write fd 1 sizeof_int)"
    by (simp add: interrupt_loop_extends interrupt_loop_chan_writes)
  then have loop: "filter is_chan_write (new_events w (interrupt_loop dev fd gpio_ptr rs w))
      = replicate (length rs) (Chan_Write fd 1 sizeof_int)"
    by (simp add: new_events_def)
  have "filter is_chan_write (new_events w (wait_for_interrupt dev fd gpio_ptr r w))
      = [Chan_Write fd 1 sizeof_int]"
    by (simp add: wait_for_interrupt_new_events filter_handling_chan_write
        not_chan_write_Chan_Read)
  with loop show ?thesis by simp
qed

theorem reenable_once_per_iteration_witness:
  "filter is_chan_write (new_events sim_idle
      (wait_for_interrupt sim 3 0x40000000 (Read_Bytes [1, 0, 0, 0]) sim_idle))
     = [Chan_Write 3 1 4]
   \<and> filter (is_write_to 0x40000120) (new_events sim_idle
      (wait_for_interrupt sim 3 0x40000000 (Read_Bytes [1, 0, 0, 0]) sim_idle)) = []
   \<and> filter is_chan_write (new_events sim_idle
      (interrupt_loop sim 3 0x40000000 [Read_Bytes [1, 0, 0, 0], Read_Bytes [2, 0, 0, 0]] sim_idle))
     = [Chan_Write 3 1 4, Chan_Write 3 1 4]"
  using reenable_once_per_iteration [of sim_idle sim 3 "0x40000000" "Read_Bytes [1, 0, 0, 0]"
      "[Read_Bytes [1, 0, 0, 0], Read_Bytes [2, 0, 0, 0]]"]
  by (simp add: sim_run is_write_to_def)

subsection \<open>get_memory_size\<close>

lemma xdigit_denotes_le: "xdigit_denotes c \<le> 15"
  by (auto simp: xdigit_denotes_def xdigit_value_def Let_def)

lemma strtoul16_snoc: "strtoul16 (ds @ [c]) = strtoul16 ds * 16 + xdigit_denotes c"
  by (simp add: strtoul16_def xdigit_denotes_def)

lemma hex_denotation_snoc:
  "hex_denotation (ds @ [c]) = hex_denotation ds * 16 + xdigit_denotes c"
proof -
  have "(\<Sum>i < length ds. xdigit_denotes ((ds @ [c]) ! i) * 16 ^ (length ds - i))
      = (\<Sum>i < length ds. (xdigit_denotes (ds ! i) * 16 ^ (length ds - 1 - i)) * 16)"
  proof (rule sum.cong)
    fix i assume "i \<in> {..<length ds}"
    then have i: "i < length ds" by simp
    then have "length ds - i = Suc (length ds - 1 - i)" by arith
    with i show "xdigit_denotes ((ds @ [c]) ! i) * 16 ^ (length ds - i)
        = (xdigit_denotes (ds ! i) * 16 ^ (length ds - 1 - i)) * 16"
      by (simp add: nth_append)
  qed simp
  then show ?thesis
    by (simp add: hex_denotation_def sum_distrib_right)
qed

lemma strtoul16_denotation: "strtoul16 ds = hex_denotation ds"
proof (induction ds rule: rev_induct)
  case Nil
  show ?case by (simp add: strtoul16_def hex_denotation_def)
next
  case (snoc c ds)
  then show ?case by (simp add: strtoul16_snoc hex_denotation_snoc)
qed

lemma hex_denotation_less: "hex_denotation ds < 16 ^ length ds"
proof (induction ds rule: rev_induct)
  case Nil
  show ?case by (simp add: hex_denotation_def)
next
  case (snoc c ds)
  have "hex_denotation ds * 16 + xdigit_denotes c < (hex_denotation ds + 1) * 16"
    using xdigit_denotes_le [of c] by simp
  also have "\<dots> \<le> 16 ^ length ds * 16"
    using snoc.IH by (intro mult_right_mono) simp_all
  finally show ?case by (simp add: hex_denotation_snoc)
qed

lemma isxdigit_not_space: "isxdigit c \<Longrightarrow> \<not> isspace c"
  by (auto simp: isxdigit_def xdigit_value_def isspace_def Let_def split: if_splits)

lemma isxdigit_not_sign: "isxdigit c \<Longrightarrow> c \<noteq> CHR ''+'' \<and> c \<noteq> CHR ''-''"
  by (auto simp: isxdigit_def xdigit_value_def Let_def split: if_splits)

lemma isxdigit_not_x: "isxdigit c \<Longrightarrow> c \<noteq> CHR ''x'' \<and> c \<noteq> CHR ''X''"
  by (auto simp: isxdigit_def xdigit_value_def Let_def split: if_splits)

lemma scan_hex_digits:
  assumes len: "length ds = 8" and hex: "\<forall>c \<in> set ds. isxdigit c"
  shows "scan_hex 8 (ds @ rest) = Some (word_of_nat (strtoul16 ds))"
proof -
  from len obtain c d ds' where ds: "ds = c # d # ds'"
    by (cases ds; cases "tl ds") auto
  with hex have c: "isxdigit c" and d: "isxdigit d" by simp_all
  have "dropWhile isspace (ds @ rest) = ds @ rest"
    using isxdigit_not_space [OF c] by (simp add: ds)
  moreover have "scan_sign 8 (ds @ rest) = (False, 8, ds @ rest)"
    using isxdigit_not_sign [OF c] by (simp add: ds)
  moreover have "scan_prefix 8 (ds @ rest) = (8, ds @ rest)"
    using isxdigit_not_x [OF d] by (simp add: ds)
  moreover have "takeWhile isxdigit (take 8 (ds @ rest)) = ds"
    using len hex by simp
  moreover have "ds \<noteq> []" by (simp add: ds)
  ultimately show ?thesis by (simp add: scan_hex_def)
qed

lemma fscanf_size_digits:
  assumes "length ds = 8" and "\<forall>c \<in> set ds. isxdigit c"
  shows "fscanf_size (''0x'' @ ds @ rest) = Some (word_of_nat (hex_denotation ds))"
  using scan_hex_digits [OF assms] by (simp add: fscanf_size_def strtoul16_denotation)

lemma get_memory_size_readable:
  "fs path = Some content \<Longrightarrow>
   get_memory_size fs size0 path w
     = (Inr (case fscanf_size content of None \<Rightarrow> size0 | Some v \<Rightarrow> v), w)"
  by (simp add: get_memory_size_def)

lemma fscanf_size_64k: "fscanf_size ''0x00010000\<newline>'' = Some 65536"
  by (simp add: fscanf_size_def scan_hex_def isspace_def isxdigit_def xdigit_value_def strtoul16_def)

lemma fscanf_size_1: "fscanf_size ''0x00000001\<newline>'' = Some 1"
  by (simp add: fscanf_size_def scan_hex_def isspace_def isxdigit_def xdigit_value_def strtoul16_def)

lemma take_interrupt_loop:
  "n = length (trace w) \<Longrightarrow> take n (trace (interrupt_loop dev fd gpio_ptr rs w)) = trace w"
  by (simp add: interrupt_loop_extends)

text \<open>
  Claim C6. For a size file whose content is \<^verbatim>\<open>0x\<close> and eight hexadecimal digits (of
  either case, with anything after them) \<^verbatim>\<open>get_memory_size\<close> returns the integer the
  eight digits denote; for the content \<^verbatim>\<open>0x00010000\<close> it returns 65536.
\<close>

theorem get_memory_size_parses_hex:
  "(length ds = 8 \<and> (\<forall>c \<in> set ds. isxdigit c) \<and> fs path = Some (''0x'' @ ds @ rest) \<longrightarrow>
      (\<exists>v. get_memory_size fs size0 path w = (Inr v, w) \<and> unat v = hex_denotation ds))
   \<and> (fs path = Some ''0x00010000'' \<longrightarrow> get_memory_size fs size0 path w = (Inr 65536, w))"
proof -
  have a: "\<exists>v. get_memory_size fs size0 path w = (Inr v, w) \<and> unat v = hex_denotation ds"
    if len: "length ds = 8" and hex: "\<forall>c \<in> set ds. isxdigit c"
      and content: "fs path = Some (''0x'' @ ds @ rest)" for ds rest
  proof -
    have "hex_denotation ds < 2 ^ 32"
      using hex_denotation_less [of ds] by (simp add: len)
    then have "unat (word_of_nat (hex_denotation ds) :: u32) = hex_denotation ds"
      by (simp add: unat_of_nat)
    moreover have "get_memory_size fs size0 path w = (Inr (word_of_nat (hex_denotation ds)), w)"
      using fscanf_size_digits [OF len hex, of rest]
      by (simp add: get_memory_size_def content)
    ultimately show ?thesis by blast
  qed
  have x: "\<forall>c \<in> set ''00010000''. isxdigit c"
    by (simp add: isxdigit_def xdigit_value_def)
  have b: "get_memory_size fs size0 path w = (Inr 65536, w)" if content: "fs path = Some ''0x00010000''"
  proof -
    from a [of "''00010000''" "[]"] x content
    obtain v :: u32 where v: "get_memory_size fs size0 path w = (Inr v, w)"
        and "unat v = hex_denotation ''00010000''"
      by auto
    then have "unat v = 65536"
      by (simp add: strtoul16_denotation [symmetric] strtoul16_def xdigit_value_def)
    then have "v = 65536"
      by (simp add: word_unat_eq_iff)
    with v show ?thesis by simp
  qed
  from a b show ?thesis by blast
qed

theorem get_memory_size_parses_hex_witness:
  "length ''0001FfaB'' = 8
   \<and> (\<exists>v. get_memory_size (files (env_board 3 (Some ''0x0001FfaB\<newline>'') 0x40000000 []))
             0 ''/sys/class/uio/uio0/maps/map0/size'' sim_idle = (Inr v, sim_idle)
          \<and> unat v = 0x1FFAB)
   \<and> get_memory_size (files (env_board 3 (Some ''0x00010000'') 0x40000000 []))
        0 ''/sys/class/uio/uio0/maps/map0/size'' sim_idle = (Inr 65536, sim_idle)"
proof -
  let ?path = "''/sys/class/uio/uio0/maps/map0/size''"
  let ?fs1 = "files (env_board 3 (Some ''0x0001FfaB\<newline>'') 0x40000000 [])"
  let ?fs2 = "files (env_board 3 (Some ''0x00010000'') 0x40000000 [])"
  have len: "length ''0001FfaB'' = 8" by simp
  have hex: "\<forall>c \<in> set ''0001FfaB''. isxdigit c"
    by (simp add: isxdigit_def xdigit_value_def)
  have f1: "?fs1 ?path = Some (''0x'' @ ''0001FfaB'' @ ''\<newline>'')"
    by (simp add: env_board_def)
  have f2: "?fs2 ?path = Some ''0x00010000''"
    by (simp add: env_board_def)
  have d: "hex_denotation ''0001FfaB'' = 0x1FFAB"
    by (simp add: strtoul16_denotation [symmetric] strtoul16_def xdigit_value_def)
  from get_memory_size_parses_hex [of "''0001FfaB''" ?fs1 ?path "''\<newline>''" 0 sim_idle] len hex f1
  have 1: "\<exists>v. get_memory_size ?fs1 0 ?path sim_idle = (Inr v, sim_idle) \<and> unat v = 0x1FFAB"
    by (simp only: d)
  from get_memory_size_parses_hex [of "''0001FfaB''" ?fs2 ?path "''\<newline>''" 0 sim_idle] f2
  have 2: "get_memory_size ?fs2 0 ?path sim_idle = (Inr 65536, sim_idle)"
    by blast
  from len 1 2 show ?thesis by blast
qed

text \<open>
  Claim C2 says that \<^verbatim>\<open>get_memory_size\<close> fails for a content that is not of the form
  \<^verbatim>\<open>0xXXXXXXXX\<close>. It does not: for the content \<^verbatim>\<open>65536\<close> (no prefix) \<^verbatim>\<open>fscanf\<close> assigns
  nothing, its result is not looked at, and the function returns the indeterminate
  value of its uninitialised local \<^verbatim>\<open>size\<close>, with no diagnostic and no exit.
\<close>

theorem get_memory_size_unparsable:
  "get_memory_size (files (env_board 3 (Some ''65536\<newline>'') 0x40000000 []))
      size0 ''/sys/class/uio/uio0/maps/map0/size'' w = (Inr size0, w)"
  by (simp add: get_memory_size_def env_board_def fscanf_size_def)

subsection \<open>Startup\<close>

lemma main_open_fails:
  "sys_open e ''/dev/uio0'' <s 1 \<Longrightarrow>
     main e h0 = (Exited (- 1), \<lparr>hw = h0, trace = [Output ''GPIO UIO test.\<newline>'',
        Output ''Invalid UIO device file:/dev/uio0.\<newline>'']\<rparr>)"
  by (simp add: main_def printf_def)

lemma main_size_file_missing:
  "\<not> sys_open e ''/dev/uio0'' <s 1 \<Longrightarrow> files e ''/sys/class/uio/uio0/maps/map0/size'' = None \<Longrightarrow>
     main e h0 = (Exited (- 1), \<lparr>hw = h0, trace = [Output ''GPIO UIO test.\<newline>'',
        Output ''unable to open the uio size file\<newline>'']\<rparr>)"
  by (simp add: main_def printf_def get_memory_size_def)

lemma main_after_get_memory_size:
  assumes "\<not> sys_open e ''/dev/uio0'' <s 1"
    and "get_memory_size (files e) (uninitialised e) ''/sys/class/uio/uio0/maps/map0/size''
           (printf ''GPIO UIO test.\<newline>'' \<lparr>hw = h0, trace = []\<rparr>) = (Inr len, w)"
  shows "main e h0 =
      (let fd = sys_open e ''/dev/uio0'';
           gpio_ptr = sys_mmap e len fd;
           w = \<lparr>hw = h0, trace = [Output ''GPIO UIO test.\<newline>'', Mmap len fd gpio_ptr]\<rparr>
       in if gpio_ptr = MAP_FAILED then
            (Exited (- 1), printf ''Mmap call failure.\<newline>'' w)
          else
           (let w = gpio_write (gpio e) gpio_ptr GPIO_TRI_OFFSET 0 w;
                w = gpio_write (gpio e) gpio_ptr GPIO_TRI2_OFFSET 0xF w;
                w = gpio_write (gpio e) gpio_ptr GPIO_GLOBAL_IRQ 0x80000000 w;
                w = gpio_write (gpio e) gpio_ptr GPIO_IRQ_CONTROL 2 w
            in (Blocked, interrupt_loop (gpio e) fd gpio_ptr (notifications e) w)))"
proof -
  from assms(2) have "w = printf ''GPIO UIO test.\<newline>'' \<lparr>hw = h0, trace = []\<rparr>"
    by (auto simp: get_memory_size_def split: option.splits)
  with assms show ?thesis
    by (simp add: main_def printf_def Let_def)
qed

text \<open>
  Claim C8. On each startup failure \<^verbatim>\<open>main\<close> prints a diagnostic and ends with status
  -1 before any register is touched and before the interrupt loop: when \<^verbatim>\<open>open\<close> on
  the UIO device node fails (returns a descriptor below 1), when the size file cannot
  be opened, and when \<^verbatim>\<open>mmap\<close> returns \<^verbatim>\<open>MAP_FAILED\<close>.
\<close>

theorem startup_failure_diagnostic_exit:
  "(sys_open e ''/dev/uio0'' <s 1 \<longrightarrow>
      main e h0 = (Exited (- 1), \<lparr>hw = h0, trace = [Output ''GPIO UIO test.\<newline>'',
        Output ''Invalid UIO device file:/dev/uio0.\<newline>'']\<rparr>))
   \<and> (\<not> sys_open e ''/dev/uio0'' <s 1
        \<and> files e ''/sys/class/uio/uio0/maps/map0/size'' = None \<longrightarrow>
      main e h0 = (Exited (- 1), \<lparr>hw = h0, trace = [Output ''GPIO UIO test.\<newline>'',
        Output ''unable to open the uio size file\<newline>'']\<rparr>))
   \<and> (\<not> sys_open e ''/dev/uio0'' <s 1
        \<and> files e ''/sys/class/uio/uio0/maps/map0/size'' = Some content
        \<and> sys_mmap e (requested_length e content) (sys_open e ''/dev/uio0'') = MAP_FAILED \<longrightarrow>
      main e h0 = (Exited (- 1), \<lparr>hw = h0, trace = [Output ''GPIO UIO test.\<newline>'',
        Mmap (requested_length e content) (sys_open e ''/dev/uio0'') MAP_FAILED,
        Output ''Mmap call failure.\<newline>'']\<rparr>))"
proof -
  have "main e h0 = (Exited (- 1), \<lparr>hw = h0, trace = [Output ''GPIO UIO test.\<newline>'',
        Mmap (requested_length e content) (sys_open e ''/dev/uio0'') MAP_FAILED,
        Output ''Mmap call failure.\<newline>'']\<rparr>)"
    if fd: "\<not> sys_open e ''/dev/uio0'' <s 1"
      and content: "files e ''/sys/class/uio/uio0/maps/map0/size'' = Some content"
      and failed: "sys_mmap e (requested_length e content) (sys_open e ''/dev/uio0'') = MAP_FAILED"
  proof -
    have "get_memory_size (files e) (uninitialised e) ''/sys/class/uio/uio0/maps/map0/size''
           (printf ''GPIO UIO test.\<newline>'' \<lparr>hw = h0, trace = []\<rparr>)
        = (Inr (requested_length e content), printf ''GPIO UIO test.\<newline>'' \<lparr>hw = h0, trace = []\<rparr>)"
      by (simp add: get_memory_size_readable [of "files e", OF content] requested_length_def)
    from main_after_get_memory_size [OF fd this] failed show ?thesis
      by (simp add: printf_def)
  qed
  with main_open_fails [of e h0] main_size_file_missing [of e h0] show ?thesis
    by blast
qed

theorem startup_failure_diagnostic_exit_witness:
  "main (env_board (- 1) (Some ''0x00010000\<newline>'') 0x40000000 [Read_Bytes [1, 0, 0, 0]]) []
     = (Exited (- 1), \<lparr>hw = [], trace = [Output ''GPIO UIO test.\<newline>'',
        Output ''Invalid UIO device file:/dev/uio0.\<newline>'']\<rparr>)
   \<and> main (env_board 3 None 0x40000000 [Read_Bytes [1, 0, 0, 0]]) []
     = (Exited (- 1), \<lparr>hw = [], trace = [Output ''GPIO UIO test.\<newline>'',
        Output ''unable to open the uio size file\<newline>'']\<rparr>)
   \<and> main (env_board 3 (Some ''0x00010000\<newline>'') MAP_FAILED [Read_Bytes [1, 0, 0, 0]]) []
     = (Exited (- 1), \<lparr>hw = [], trace = [Output ''GPIO UIO test.\<newline>'',
        Mmap 0x10000 3 MAP_FAILED, Output ''Mmap call failure.\<newline>'']\<rparr>)"
  using
    startup_failure_diagnostic_exit [of
      "env_board (- 1) (Some ''0x00010000\<newline>'') 0x40000000 [Read_Bytes [1, 0, 0, 0]]"
      "[]" "''0x00010000\<newline>''"]
    startup_failure_diagnostic_exit [of
      "env_board 3 None 0x40000000 [Read_Bytes [1, 0, 0, 0]]" "[]" "''0x00010000\<newline>''"]
    startup_failure_diagnostic_exit [of
      "env_board 3 (Some ''0x00010000\<newline>'') MAP_FAILED [Read_Bytes [1, 0, 0, 0]]"
      "[]" "''0x00010000\<newline>''"]
  by (simp add: env_board_def requested_length_def fscanf_size_64k word_sless_alt)

text \<open>
  Claim C7, as amended. \<^verbatim>\<open>main\<close> has no check of its own on the size of the region:
  it asks \<^verbatim>\<open>mmap\<close> for exactly the size \<^verbatim>\<open>get_memory_size\<close> returned, and the mapping step
  fails (the diagnostic \<^verbatim>\<open>Mmap call failure.\<close> and status -1, no register touched)
  exactly when \<^verbatim>\<open>mmap\<close> returns \<^verbatim>\<open>MAP_FAILED\<close>; otherwise the program goes on with the
  region, configures the GPIO block and enters the loop, whatever the size.
\<close>

theorem mapping_fails_when_mmap_fails:
  assumes "\<not> sys_open e ''/dev/uio0'' <s 1"
    and "get_memory_size (files e) (uninitialised e) ''/sys/class/uio/uio0/maps/map0/size''
           (printf ''GPIO UIO test.\<newline>'' \<lparr>hw = h0, trace = []\<rparr>) = (Inr len, w)"
  shows "(let fd = sys_open e ''/dev/uio0''; gpio_ptr = sys_mmap e len fd
          in take 2 (trace (snd (main e h0)))
               = [Output ''GPIO UIO test.\<newline>'', Mmap len fd gpio_ptr]
             \<and> (gpio_ptr = MAP_FAILED \<longrightarrow>
                  main e h0 = (Exited (- 1), \<lparr>hw = h0, trace = [Output ''GPIO UIO test.\<newline>'',
                    Mmap len fd gpio_ptr, Output ''Mmap call failure.\<newline>'']\<rparr>))
             \<and> (gpio_ptr \<noteq> MAP_FAILED \<longrightarrow>
                  fst (main e h0) = Blocked
                  \<and> take 6 (trace (snd (main e h0)))
                      = [Output ''GPIO UIO test.\<newline>'', Mmap len fd gpio_ptr,
                         Reg_Write (gpio_ptr + GPIO_TRI_OFFSET) 0,
                         Reg_Write (gpio_ptr + GPIO_TRI2_OFFSET) 0xF,
                         Reg_Write (gpio_ptr + GPIO_GLOBAL_IRQ) 0x80000000,
                         Reg_Write (gpio_ptr + GPIO_IRQ_CONTROL) 2]))"
proof (cases "sys_mmap e len (sys_open e ''/dev/uio0'') = MAP_FAILED")
  case True
  then show ?thesis
    by (simp add: main_after_get_memory_size [OF assms] printf_def Let_def)
next
  case False
  let ?fd = "sys_open e ''/dev/uio0''"
  let ?p = "sys_mmap e len ?fd"
  let ?w = "gpio_write (gpio e) ?p GPIO_IRQ_CONTROL 2
      (gpio_write (gpio e) ?p GPIO_GLOBAL_IRQ 0x80000000
        (gpio_write (gpio e) ?p GPIO_TRI2_OFFSET 0xF
          (gpio_write (gpio e) ?p GPIO_TRI_OFFSET 0
            \<lparr>hw = h0, trace = [Output ''GPIO UIO test.\<newline>'', Mmap len ?fd ?p]\<rparr>)))"
  have m: "main e h0 = (Blocked, interrupt_loop (gpio e) ?fd ?p (notifications e) ?w)"
    using False by (simp add: main_after_get_memory_size [OF assms] Let_def)
  have t: "trace ?w = [Output ''GPIO UIO test.\<newline>'', Mmap len ?fd ?p,
                         Reg_Write (?p + GPIO_TRI_OFFSET) 0,
                         Reg_Write (?p + GPIO_TRI2_OFFSET) 0xF,
                         Reg_Write (?p + GPIO_GLOBAL_IRQ) 0x80000000,
                         Reg_Write (?p + GPIO_IRQ_CONTROL) 2]"
    by (simp add: gpio_write_def)
  have six: "take 6 (trace (interrupt_loop (gpio e) ?fd ?p (notifications e) ?w)) = trace ?w"
    by (rule take_interrupt_loop) (simp add: t)
  have "take 2 (take 6 (trace (interrupt_loop (gpio e) ?fd ?p (notifications e) ?w)))
      = take 2 (trace ?w)"
    by (simp only: six)
  then have two: "take 2 (trace (interrupt_loop (gpio e) ?fd ?p (notifications e) ?w))
      = [Output ''GPIO UIO test.\<newline>'', Mmap len ?fd ?p]"
    by (simp add: t)
  from False m six two t show ?thesis
    by (simp add: Let_def)
qed

theorem mapping_fails_when_mmap_fails_witness:
  "\<not> sys_open (env_board 3 (Some ''0x00000001\<newline>'') 0x40000000 []) ''/dev/uio0'' <s 1
   \<and> get_memory_size (files (env_board 3 (Some ''0x00000001\<newline>'') 0x40000000 []))
        (uninitialised (env_board 3 (Some ''0x00000001\<newline>'') 0x40000000 []))
        ''/sys/class/uio/uio0/maps/map0/size''
        (printf ''GPIO UIO test.\<newline>'' \<lparr>hw = [], trace = []\<rparr>)
      = (Inr 1, printf ''GPIO UIO test.\<newline>'' \<lparr>hw = [], trace = []\<rparr>)
   \<and> fst (main (env_board 3 (Some ''0x00000001\<newline>'') 0x40000000 []) []) = Blocked
   \<and> take 6 (trace (snd (main (env_board 3 (Some ''0x00000001\<newline>'') 0x40000000 []) [])))
        = [Output ''GPIO UIO test.\<newline>'', Mmap 1 3 0x40000000,
           Reg_Write 0x40000004 0, Reg_Write 0x4000000C 0xF,
           Reg_Write 0x4000011C 0x80000000, Reg_Write 0x40000128 2]"
proof -
  let ?e = "env_board 3 (Some ''0x00000001\<newline>'') 0x40000000 []"
  have fd: "\<not> sys_open ?e ''/dev/uio0'' <s 1"
    by (simp add: env_board_def word_sless_alt)
  have sz: "get_memory_size (files ?e) (uninitialised ?e) ''/sys/class/uio/uio0/maps/map0/size''
           (printf ''GPIO UIO test.\<newline>'' \<lparr>hw = [], trace = []\<rparr>)
          = (Inr 1, printf ''GPIO UIO test.\<newline>'' \<lparr>hw = [], trace = []\<rparr>)"
    by (simp add: get_memory_size_def env_board_def fscanf_size_1)
  have p: "sys_mmap ?e 1 3 = 0x40000000" "sys_open ?e ''/dev/uio0'' = 3"
    by (simp_all add: env_board_def)
  from mapping_fails_when_mmap_fails [OF fd sz] fd sz show ?thesis
    by (simp add: Let_def p MAP_FAILED_def GPIO_TRI_OFFSET_def GPIO_TRI2_OFFSET_def
        GPIO_GLOBAL_IRQ_def GPIO_IRQ_CONTROL_def)
qed

text \<open>
  Claim C7 as stated fails: on a board whose size file holds \<^verbatim>\<open>0x00000001\<close> and whose
  \<^verbatim>\<open>mmap\<close> grants the request, \<^verbatim>\<open>main\<close> maps a region of length 1, which is no
  multiple of a page size of 4096, and goes on into the loop.
\<close>

theorem unchecked_region_size_counterexample:
  "main (env_board 3 (Some ''0x00000001\<newline>'') 0x40000000 []) []
     = (Blocked,
        \<lparr>hw = [(0x40000128, 2), (0x4000011C, 0x80000000), (0x4000000C, 0xF), (0x40000004, 0)],
         trace = [Output ''GPIO UIO test.\<newline>'', Mmap 1 3 0x40000000,
           Reg_Write 0x40000004 0, Reg_Write 0x4000000C 0xF,
           Reg_Write 0x4000011C 0x80000000, Reg_Write 0x40000128 2]\<rparr>)
   \<and> \<not> page_multiple 4096 1"
  by (simp add: main_def env_board_def get_memory_size_def fscanf_size_1 printf_def MAP_FAILED_def
      gpio_write_def GPIO_TRI_OFFSET_def GPIO_TRI2_OFFSET_def GPIO_GLOBAL_IRQ_def
      GPIO_IRQ_CONTROL_def sim_def Let_def word_sless_alt page_multiple_def)

subsection \<open>Short transfers on the notification channel\<close>

text \<open>
  Claim C3, as amended. \<^verbatim>\<open>wait_for_interrupt\<close> does not look at the value \<^verbatim>\<open>read\<close>
  returns: after a read that failed or transferred fewer than \<^verbatim>\<open>sizeof(int)\<close> bytes it
  carries out the whole Handling phase, as after a full read.
\<close>

theorem short_read_goes_unnoticed:
  "r = Read_Failed \<or> (\<exists>bs. r = Read_Bytes bs \<and> length bs < sizeof_int) \<Longrightarrow>
   new_events w (wait_for_interrupt dev fd gpio_ptr r w)
     = Chan_Read fd sizeof_int r
         # handling_events fd gpio_ptr (irq_status_seen dev gpio_ptr w) (data2_seen dev gpio_ptr w)"
  by (simp add: wait_for_interrupt_new_events sizeof_int_def)

theorem short_read_goes_unnoticed_witness:
  "length [1 :: byte, 0] < sizeof_int
   \<and> new_events sim_pending (wait_for_interrupt sim 3 0x40000000 (Read_Bytes [1, 0]) sim_pending)
     = [Chan_Read 3 4 (Read_Bytes [1, 0]), Reg_Read 0x40000120 2, Reg_Write 0x40000120 2,
        Reg_Read 0x40000008 7, Output ''GPIO_DATA2_OFFSET: 0x7\<newline>'', Chan_Write 3 1 4]"
proof -
  have short: "length [1 :: byte, 0] < sizeof_int"
    by (simp add: sizeof_int_def)
  then have "Read_Bytes [1, 0] = Read_Failed
      \<or> (\<exists>bs. Read_Bytes [1, 0] = Read_Bytes bs \<and> length bs < sizeof_int)"
    by blast
  from short_read_goes_unnoticed [OF this, of sim_pending sim 3 "0x40000000"] short
  show ?thesis
    by (simp add: handling_events_def irq_status_seen_def data2_seen_def after_acknowledge_def
        sim_def sim_pending_def GPIO_IRQ_STATUS_def GPIO_DATA2_OFFSET_def sizeof_int_def
        show_int_def show_nat.simps)
qed

text \<open>
  Claim C3 as stated fails: with a read that transfers 2 bytes the program neither
  ends nor skips the Handling phase. It acknowledges, reports DATA2, reenables and is
  blocked in the next read.
\<close>

theorem short_read_counterexample:
  "main (env_board 3 (Some ''0x00010000\<newline>'') 0x40000000 [Read_Bytes [1, 0]])
      [(0x40000120, 2), (0x40000008, 7)]
   = (Blocked,
      \<lparr>hw = [(0x40000120, 2), (0x40000128, 2), (0x4000011C, 0x80000000), (0x4000000C, 0xF),
             (0x40000004, 0), (0x40000120, 2), (0x40000008, 7)],
       trace = [Output ''GPIO UIO test.\<newline>'', Mmap 0x10000 3 0x40000000,
          Reg_Write 0x40000004 0, Reg_Write 0x4000000C 0xF,
          Reg_Write 0x4000011C 0x80000000, Reg_Write 0x40000128 2,
          Chan_Read 3 4 (Read_Bytes [1, 0]), Reg_Read 0x40000120 2,
          Reg_Write 0x40000120 2, Reg_Read 0x40000008 7,
          Output ''GPIO_DATA2_OFFSET: 0x7\<newline>'', Chan_Write 3 1 4]\<rparr>)"
  by (simp add: main_def env_board_def get_memory_size_def fscanf_size_64k printf_def MAP_FAILED_def
      gpio_write_def GPIO_TRI_OFFSET_def GPIO_TRI2_OFFSET_def GPIO_GLOBAL_IRQ_def
      GPIO_IRQ_CONTROL_def wait_for_interrupt_def sys_read_def sys_write_def gpio_read_def
      sim_def GPIO_IRQ_STATUS_def GPIO_DATA2_OFFSET_def sizeof_int_def show_int_def
      show_nat.simps Let_def word_sless_alt)

end
